theory Spec2Isabelle
  imports Complex_Main
begin

section \<open>Checkpoint decoder: subsampling parallel sequences\<close>

text \<open>
  \<^verbatim>\<open>checkpoint_decoder.py\<close>:
  \<^verbatim>\<open>
  def parallel_subsample(parallel_sequences, sample_size, seed):
      random_gen = random.Random(seed)
      parallel_sample = list(zip(*random_gen.sample(list(zip(*parallel_sequences)), sample_size)))
      return parallel_sample
  \<close>
\<close>

datatype py_error = ValueError

text \<open>
  Python's \<^verbatim>\<open>list(zip(*xss))\<close>: no rows for no arguments, otherwise one row for
  every position below the length of the shortest argument.
\<close>

definition zip_star :: "'a list list \<Rightarrow> 'a list list" where
  "zip_star xss =
     (case xss of
        [] \<Rightarrow> []
      | xs # rest \<Rightarrow>
          map (\<lambda>i. map (\<lambda>ys. ys ! i) xss) [0..<fold min (map length rest) (length xs)])"

text \<open>
  \<^verbatim>\<open>random.Random(seed).sample(population, k)\<close> of the standard library: it raises
  ValueError unless \<open>0 \<le> k \<le> len(population)\<close>, and otherwise returns
  \<open>population[j]\<close> for \<open>k\<close> positions \<open>j\<close> that the generator picks from the seed,
  the population's length and \<open>k\<close> alone. The generator is not part of the repository:
  its choice of positions is the parameter \<open>pick seed n k\<close>.
\<close>

definition random_sample ::
  "(int \<Rightarrow> nat \<Rightarrow> nat \<Rightarrow> nat list) \<Rightarrow> int \<Rightarrow> 'a list \<Rightarrow> int \<Rightarrow> py_error + 'a list" where
  "random_sample pick seed population k =
     (if k < 0 \<or> int (length population) < k then Inl ValueError
      else Inr (map (\<lambda>j. population ! j) (pick seed (length population) (nat k))))"

text \<open>
  What the library promises of the chosen positions: \<open>k\<close> distinct positions of the
  population.
\<close>

definition sample_contract :: "(int \<Rightarrow> nat \<Rightarrow> nat \<Rightarrow> nat list) \<Rightarrow> bool" where
  "sample_contract pick \<longleftrightarrow>
     (\<forall>seed n k. k \<le> n \<longrightarrow>
        length (pick seed n k) = k \<and> distinct (pick seed n k) \<and>
        (\<forall>j \<in> set (pick seed n k). j < n))"

text \<open>
  The function runs in a process whose module-level generator has some state \<open>g\<close>. It
  builds a generator of its own from \<open>seed\<close>, so \<open>g\<close> is handed back as it came.
\<close>

definition parallel_subsample ::
  "(int \<Rightarrow> nat \<Rightarrow> nat \<Rightarrow> nat list) \<Rightarrow> 'g \<Rightarrow> 'a list list \<Rightarrow> int \<Rightarrow> int
     \<Rightarrow> (py_error + 'a list list) \<times> 'g" where
  "parallel_subsample pick g parallel_sequences sample_size seed =
     (case random_sample pick seed (zip_star parallel_sequences) sample_size of
        Inl e \<Rightarrow> (Inl e, g)
      | Inr rows \<Rightarrow> (Inr (zip_star rows), g))"

text \<open>A generator for the witnesses: the last \<open>k\<close> positions, from the end.\<close>

definition pick_from_end :: "int \<Rightarrow> nat \<Rightarrow> nat \<Rightarrow> nat list" where
  "pick_from_end seed n k = take k (rev [0..<n])"

section \<open>Alignment-matrix loss\<close>

text \<open>
  \<^verbatim>\<open>loss.py\<close>, \<^verbatim>\<open>AlignmentMatrixKLDivergenceLoss.forward\<close>:
  \<^verbatim>\<open>
  res_device = alignment_head_attention.device
  if alignment_matrix.numel() == 0:
      return pt.zeros(1, device=res_device), pt.ones(1, device=res_device)
  loss = -(alignment_matrix * pt.log(alignment_head_attention + 1e-8)).sum(dim=2).sum(dim=1) \
         / alignment_matrix.shape[1]
  num_samples = pt.ones(1, device=res_device)
  loss = loss * self.weight
  loss = loss.mean()
  return loss, num_samples
  \<close>
  A tensor is its shape, its elements in row-major order and its device. Elements are
  real numbers: the rounding of the framework's floats is not modelled.
\<close>

datatype device = CPU | CUDA nat

record tensor =
  shape :: "nat list"
  elems :: "real list"
  device :: device

datatype loss_error = ShapeError

definition numel :: "tensor \<Rightarrow> nat" where
  "numel t = prod_list (shape t)"

definition zeros :: "nat \<Rightarrow> device \<Rightarrow> tensor" where
  "zeros n d = \<lparr>shape = [n], elems = replicate n 0, device = d\<rparr>"

definition ones :: "nat \<Rightarrow> device \<Rightarrow> tensor" where
  "ones n d = \<lparr>shape = [n], elems = replicate n 1, device = d\<rparr>"

text \<open>
  The sum over target and source positions of one batch entry, for two tensors of the
  documented shape \<open>[batch, target length, source length]\<close>.
\<close>

definition kl_entry :: "tensor \<Rightarrow> tensor \<Rightarrow> nat \<Rightarrow> nat \<Rightarrow> nat \<Rightarrow> real" where
  "kl_entry attention matrix tlen slen b =
     - (\<Sum>i \<leftarrow> [0..<tlen * slen].
          (elems matrix ! (b * tlen * slen + i)) *
          ln ((elems attention ! (b * tlen * slen + i)) + 1 / 10 ^ 8)) / real tlen"

text \<open>
  Past the guard the model covers the shapes the docstring names (both tensors of one
  three-dimensional shape); any other pair of shapes is reported as \<open>ShapeError\<close>.
\<close>

definition forward :: "real \<Rightarrow> tensor \<Rightarrow> tensor \<Rightarrow> loss_error + (tensor \<times> tensor)" where
  "forward weight alignment_head_attention alignment_matrix =
     (let res_device = device alignment_head_attention in
      if numel alignment_matrix = 0 then Inr (zeros 1 res_device, ones 1 res_device)
      else
        (case shape alignment_matrix of
           [batch, tlen, slen] \<Rightarrow>
             if shape alignment_head_attention = [batch, tlen, slen] then
               Inr (\<lparr>shape = [],
                     elems = [(\<Sum>b \<leftarrow> [0..<batch].
                                 kl_entry alignment_head_attention alignment_matrix tlen slen b
                                   * weight) / real batch],
                     device = res_device\<rparr>,
                    ones 1 res_device)
             else Inl ShapeError
         | _ \<Rightarrow> Inl ShapeError))"

section \<open>Target and label sequences of a batch\<close>

text \<open>
  Modelled from the spec: \<^verbatim>\<open>create_target_and_shifted_label_sequences\<close> of
  \<^verbatim>\<open>sockeye/data_io.py\<close>, which is not among the sources; only its test
  \<^verbatim>\<open>test_create_target_and_shifted_label_sequences\<close> is. Section 4.6 of the spec gives
  \<open>target = sequence[:-1]\<close> and \<open>label = sequence[1:]\<close>. The example of section 8,
  which the test asserts for three sentences, has in addition every end sentinel that
  is left in the target replaced by padding (\<open>[BOS,4,17,35,12,EOS,PAD,PAD]\<close> gives the
  target \<open>[BOS,4,17,35,12,PAD,PAD]\<close>). The model follows the example and the test.
  A batch is a list of sentences of token ids; the factor axis, of size one in the test,
  is left out. The ids of the sentinels belong to \<^verbatim>\<open>constants.py\<close>, not among the sources
  either, and are parameters.
\<close>

definition create_target_and_shifted_label_sequences ::
  "int \<Rightarrow> int \<Rightarrow> int list list \<Rightarrow> int list list \<times> int list list" where
  "create_target_and_shifted_label_sequences pad_id eos_id target_and_label =
     (map (\<lambda>s. map (\<lambda>x. if x = eos_id then pad_id else x) (butlast s)) target_and_label,
      map tl target_and_label)"

text \<open>
  The lengths the test derives from a target,
  \<^verbatim>\<open>lengths = (target != C.PAD_ID).sum(dim=1).squeeze()\<close>: for every sentence the
  number of positions that hold no padding.
\<close>

definition target_lengths :: "int \<Rightarrow> int list list \<Rightarrow> nat list" where
  "target_lengths pad_id target = map (\<lambda>s. length (filter (\<lambda>x. x \<noteq> pad_id) s)) target"

text \<open>
  The sentences the component is made for: a start sentinel, the tokens, an end
  sentinel and \<open>k\<close> positions of padding, with the three sentinel ids distinct and the
  tokens free of padding and end sentinel.
\<close>

definition sentence :: "int \<Rightarrow> int \<Rightarrow> int \<Rightarrow> int list \<Rightarrow> nat \<Rightarrow> int list" where
  "sentence pad_id bos_id eos_id tokens k = bos_id # tokens @ [eos_id] @ replicate k pad_id"

definition sentinels_ok :: "int \<Rightarrow> int \<Rightarrow> int \<Rightarrow> int list \<Rightarrow> bool" where
  "sentinels_ok pad_id bos_id eos_id tokens \<longleftrightarrow>
     pad_id \<noteq> bos_id \<and> pad_id \<noteq> eos_id \<and> bos_id \<noteq> eos_id \<and>
     pad_id \<notin> set tokens \<and> eos_id \<notin> set tokens"

section \<open>Properties of the subsample\<close>

lemma fold_min_same:
  "\<forall>ys \<in> set rest. length ys = n \<Longrightarrow> fold min (map length rest) n = n"
  by (induction rest) auto

lemma zip_star_rect:
  assumes "xss \<noteq> []" and "\<forall>ys \<in> set xss. length ys = n"
  shows "zip_star xss = map (\<lambda>i. map (\<lambda>ys. ys ! i) xss) [0..<n]"
proof (cases xss)
  case Nil
  with assms(1) show ?thesis by simp
next
  case (Cons xs rest)
  with assms(2) have "length xs = n" and "\<forall>ys \<in> set rest. length ys = n"
    by auto
  then have "fold min (map length rest) (length xs) = n"
    by (simp add: fold_min_same)
  with Cons show ?thesis
    by (simp add: zip_star_def)
qed

lemma pick_from_end_contract: "sample_contract pick_from_end"
  by (auto simp: sample_contract_def pick_from_end_def dest: in_set_takeD)

lemma random_sample_rows:
  assumes "sample_contract pick" and "0 \<le> k" and "k \<le> int (length population)"
  shows "\<exists>idx. random_sample pick seed population k = Inr (map (\<lambda>j. population ! j) idx) \<and>
           length idx = nat k \<and> distinct idx \<and> (\<forall>j \<in> set idx. j < length population)"
proof -
  from assms(2,3) have "nat k \<le> length population" by simp
  with assms(1) have "length (pick seed (length population) (nat k)) = nat k"
    and "distinct (pick seed (length population) (nat k))"
    and "\<forall>j \<in> set (pick seed (length population) (nat k)). j < length population"
    unfolding sample_contract_def by blast+
  moreover from assms(2,3) have "random_sample pick seed population k =
      Inr (map (\<lambda>j. population ! j) (pick seed (length population) (nat k)))"
    by (simp add: random_sample_def)
  ultimately show ?thesis by blast
qed

lemma subsample_paired:
  assumes c: "sample_contract pick" and ne: "seqs \<noteq> []"
    and len: "\<forall>ys \<in> set seqs. length ys = n" and k0: "0 \<le> k" and kn: "k \<le> int n"
  shows "\<exists>idx. length idx = nat k \<and> distinct idx \<and> (\<forall>j \<in> set idx. j < n) \<and>
           fst (parallel_subsample pick g seqs k seed) =
             Inr (if k = 0 then [] else map (\<lambda>ys. map (\<lambda>j. ys ! j) idx) seqs)"
proof -
  let ?pop = "zip_star seqs"
  have pop: "?pop = map (\<lambda>i. map (\<lambda>ys. ys ! i) seqs) [0..<n]"
    using ne len by (rule zip_star_rect)
  then have lpop: "length ?pop = n" by simp
  with c k0 kn obtain idx where
    rs: "random_sample pick seed ?pop k = Inr (map (\<lambda>j. ?pop ! j) idx)"
    and li: "length idx = nat k" and di: "distinct idx" and bound: "\<forall>j \<in> set idx. j < n"
    using random_sample_rows [of pick k ?pop seed] by auto
  let ?rows = "map (\<lambda>j. ?pop ! j) idx"
  have rows: "?rows = map (\<lambda>j. map (\<lambda>ys. ys ! j) seqs) idx"
    using bound by (simp add: pop)
  have res: "fst (parallel_subsample pick g seqs k seed) = Inr (zip_star ?rows)"
    by (simp add: parallel_subsample_def rs)
  show ?thesis
  proof (cases "k = 0")
    case True
    with li have "zip_star ?rows = []" by (simp add: zip_star_def)
    with res li di bound True show ?thesis by auto
  next
    case False
    with k0 li have "?rows \<noteq> []" by auto
    moreover have "\<forall>r \<in> set ?rows. length r = length seqs"
      by (auto simp: rows)
    ultimately have "zip_star ?rows = map (\<lambda>s. map (\<lambda>r. r ! s) ?rows) [0..<length seqs]"
      by (rule zip_star_rect)
    also have "\<dots> = map (\<lambda>ys. map (\<lambda>j. ys ! j) idx) seqs"
      by (auto simp: rows intro!: nth_equalityI)
    finally show ?thesis using res li di bound False by auto
  qed
qed

lemma subsample_global_state:
  "fst (parallel_subsample pick g seqs k seed) = fst (parallel_subsample pick g' seqs k seed)
   \<and> snd (parallel_subsample pick g seqs k seed) = g"
  by (simp add: parallel_subsample_def split: sum.splits)

text \<open>
  Claim C9. Two runs of \<open>parallel_subsample\<close> on the same sequences, sample size and
  seed return the same result whatever the state of the process-wide generator, which
  the function leaves as it was. For sequences of one common length \<open>n\<close> and a sample
  size between 0 and \<open>n\<close> the call succeeds, and there is one list of \<open>sample_size\<close>
  distinct positions below \<open>n\<close> such that every returned sequence is the input sequence
  of the same rank read at exactly these positions: the elements at one output position
  all come from one common input index. (For a sample size of 0 the result is the empty
  list.)
\<close>

theorem parallel_subsample_deterministic_paired:
  "fst (parallel_subsample pick g seqs k seed) = fst (parallel_subsample pick g' seqs k seed)
   \<and> snd (parallel_subsample pick g seqs k seed) = g
   \<and> (sample_contract pick \<and> seqs \<noteq> [] \<and> (\<forall>ys \<in> set seqs. length ys = n)
        \<and> 0 \<le> k \<and> k \<le> int n \<longrightarrow>
      (\<exists>idx. length idx = nat k \<and> distinct idx \<and> (\<forall>j \<in> set idx. j < n) \<and>
         fst (parallel_subsample pick g seqs k seed) =
           Inr (if k = 0 then [] else map (\<lambda>ys. map (\<lambda>j. ys ! j) idx) seqs)))"
  using subsample_global_state [of pick g seqs k seed g']
    subsample_paired [of pick seqs n k g seed]
  by blast

theorem parallel_subsample_witness:
  "sample_contract pick_from_end \<and> [[1, 2, 3], [10, 20, 30 :: int]] \<noteq> []
   \<and> map length [[1, 2, 3], [10, 20, 30 :: int]] = [3, 3]
   \<and> (0::int) \<le> 2 \<and> (2::int) \<le> int 3
   \<and> parallel_subsample pick_from_end (7::nat) [[1, 2, 3], [10, 20, 30 :: int]] 2 42
       = (Inr [[3, 2], [30, 20]], 7)
   \<and> fst (parallel_subsample pick_from_end (7::nat) [[1, 2, 3], [10, 20, 30 :: int]] 2 42)
       = fst (parallel_subsample pick_from_end (99::nat) [[1, 2, 3], [10, 20, 30 :: int]] 2 42)
   \<and> (\<exists>idx. length idx = nat 2 \<and> distinct idx \<and> (\<forall>j \<in> set idx. j < 3) \<and>
         fst (parallel_subsample pick_from_end (7::nat) [[1, 2, 3], [10, 20, 30 :: int]] 2 42) =
           Inr (map (\<lambda>ys. map (\<lambda>j. ys ! j) idx) [[1, 2, 3], [10, 20, 30 :: int]]))"
proof -
  have run: "parallel_subsample pick_from_end (7::nat) [[1, 2, 3], [10, 20, 30 :: int]] 2 42
       = (Inr [[3, 2], [30, 20]], 7)"
    by (simp add: parallel_subsample_def random_sample_def zip_star_def pick_from_end_def
        upt_rec numeral_nat)
  have hyp: "sample_contract pick_from_end \<and> [[1, 2, 3], [10, 20, 30 :: int]] \<noteq> []
     \<and> (\<forall>ys \<in> set [[1, 2, 3], [10, 20, 30 :: int]]. length ys = 3)
     \<and> (0::int) \<le> 2 \<and> (2::int) \<le> int 3"
    by (simp add: pick_from_end_contract)
  note inst = parallel_subsample_deterministic_paired
      [of pick_from_end "7::nat" "[[1, 2, 3], [10, 20, 30 :: int]]" 2 42 "99::nat" 3]
  from inst have indep:
    "fst (parallel_subsample pick_from_end (7::nat) [[1, 2, 3], [10, 20, 30 :: int]] 2 42)
       = fst (parallel_subsample pick_from_end (99::nat) [[1, 2, 3], [10, 20, 30 :: int]] 2 42)"
    by blast
  from inst hyp have "\<exists>idx. length idx = nat 2 \<and> distinct idx \<and> (\<forall>j \<in> set idx. j < 3) \<and>
      fst (parallel_subsample pick_from_end (7::nat) [[1, 2, 3], [10, 20, 30 :: int]] 2 42) =
        Inr (if (2::int) = 0 then []
             else map (\<lambda>ys. map (\<lambda>j. ys ! j) idx) [[1, 2, 3], [10, 20, 30 :: int]])"
    by blast
  then have paired: "\<exists>idx. length idx = nat 2 \<and> distinct idx \<and> (\<forall>j \<in> set idx. j < 3) \<and>
      fst (parallel_subsample pick_from_end (7::nat) [[1, 2, 3], [10, 20, 30 :: int]] 2 42) =
        Inr (map (\<lambda>ys. map (\<lambda>j. ys ! j) idx) [[1, 2, 3], [10, 20, 30 :: int]])"
    by simp
  have "sample_contract pick_from_end" and "[[1, 2, 3], [10, 20, 30 :: int]] \<noteq> []"
    and "map length [[1, 2, 3], [10, 20, 30 :: int]] = [3, 3]"
    and "(0::int) \<le> 2" and "(2::int) \<le> int 3"
    by (simp_all add: pick_from_end_contract)
  with run indep paired show ?thesis by blast
qed

section \<open>Properties of the alignment-matrix loss\<close>

text \<open>
  Claim C10. When the alignment matrix has no elements, \<open>forward\<close> returns a loss tensor
  holding exactly 0 and a sample count holding exactly 1 (each of shape \<open>[1]\<close>, on the
  device of the attention tensor), whatever the attention probabilities and the weight
  are.
\<close>

theorem forward_empty_alignment_matrix:
  "numel alignment_matrix = 0 \<Longrightarrow>
     \<exists>loss num_samples.
       forward weight alignment_head_attention alignment_matrix = Inr (loss, num_samples)
       \<and> shape loss = [1] \<and> elems loss = [0]
       \<and> shape num_samples = [1] \<and> elems num_samples = [1]
       \<and> device loss = device alignment_head_attention
       \<and> device num_samples = device alignment_head_attention"
  by (simp add: forward_def zeros_def ones_def Let_def)

theorem forward_empty_alignment_matrix_witness:
  "numel \<lparr>shape = [0], elems = [], device = CPU\<rparr> = 0
   \<and> forward 1 \<lparr>shape = [1, 2, 2], elems = [1 / 2, 1 / 2, 1 / 10, 9 / 10], device = CUDA 0\<rparr>
        \<lparr>shape = [0], elems = [], device = CPU\<rparr>
      = Inr (\<lparr>shape = [1], elems = [0], device = CUDA 0\<rparr>,
             \<lparr>shape = [1], elems = [1], device = CUDA 0\<rparr>)"
proof -
  have h: "numel \<lparr>shape = [0], elems = [], device = CPU\<rparr> = 0"
    by (simp add: numel_def)
  from forward_empty_alignment_matrix [OF h, of 1
      "\<lparr>shape = [1, 2, 2], elems = [1 / 2, 1 / 2, 1 / 10, 9 / 10], device = CUDA 0\<rparr>"]
  obtain loss num_samples where
    "forward 1 \<lparr>shape = [1, 2, 2], elems = [1 / 2, 1 / 2, 1 / 10, 9 / 10], device = CUDA 0\<rparr>
        \<lparr>shape = [0], elems = [], device = CPU\<rparr> = Inr (loss, num_samples)"
    and "shape loss = [1]" "elems loss = [0]" "shape num_samples = [1]" "elems num_samples = [1]"
    and "device loss = CUDA 0" "device num_samples = CUDA 0"
    by auto
  with h show ?thesis by simp
qed

section \<open>Properties of the target and label sequences\<close>

lemma butlast_sentence:
  "butlast (sentence pad bos eos toks k) =
     (if k = 0 then bos # toks else bos # toks @ [eos] @ replicate (k - 1) pad)"
proof (cases k)
  case 0
  then show ?thesis by (simp add: sentence_def butlast_append)
next
  case (Suc n)
  have "sentence pad bos eos toks (Suc n) = (bos # toks @ [eos] @ replicate n pad) @ [pad]"
    by (simp add: sentence_def replicate_append_same)
  then have "butlast (sentence pad bos eos toks (Suc n)) = bos # toks @ [eos] @ replicate n pad"
    by (simp only: butlast_snoc)
  with Suc show ?thesis by simp
qed

lemma replace_tokens:
  "eos \<notin> set toks \<Longrightarrow> map (\<lambda>x. if x = eos then pad else x) toks = toks"
  by (induction toks) auto

lemma target_of_sentence:
  assumes "sentinels_ok pad bos eos toks"
  shows "map (\<lambda>x. if x = eos then pad else x) (butlast (sentence pad bos eos toks k))
           = bos # toks @ replicate k pad"
proof -
  from assms have be: "bos \<noteq> eos" and toks: "eos \<notin> set toks"
    by (auto simp: sentinels_ok_def)
  show ?thesis
  proof (cases k)
    case 0
    with be toks show ?thesis
      by (simp add: butlast_sentence replace_tokens)
  next
    case (Suc n)
    with be toks show ?thesis
      by (simp add: butlast_sentence replace_tokens replicate_append_same)
  qed
qed

lemma count_of_target:
  assumes "sentinels_ok pad bos eos toks"
  shows "length (filter (\<lambda>x. x \<noteq> pad) (bos # toks @ replicate k pad)) = Suc (length toks)"
proof -
  from assms have "pad \<noteq> bos" and "pad \<notin> set toks"
    by (auto simp: sentinels_ok_def)
  then have "filter (\<lambda>x. x \<noteq> pad) (bos # toks @ replicate k pad) = bos # toks"
    by (auto simp: filter_id_conv)
  then show ?thesis by simp
qed

text \<open>
  Claim C6, as amended. For every batch the label is the sequence without its first
  position, and the target is the sequence without its last position in which every
  end sentinel is replaced by padding (so it is \<open>sequence[:-1]\<close> only where no end sentinel
  is left). For a sentence made of a start sentinel, tokens, an end sentinel and \<open>k\<close>
  positions of padding, the target is the start sentinel, the tokens and \<open>k\<close> positions of
  padding, the label is the tokens, the end sentinel and \<open>k\<close> positions of padding, and
  the length derived from the target, its number of positions without padding, is the
  number of tokens plus one.
\<close>

theorem shifted_sequences_replace_eos:
  "create_target_and_shifted_label_sequences pad eos batch =
     (map (\<lambda>s. map (\<lambda>x. if x = eos then pad else x) (butlast s)) batch, map tl batch)
   \<and> (sentinels_ok pad bos eos toks \<longrightarrow>
        create_target_and_shifted_label_sequences pad eos [sentence pad bos eos toks k] =
          ([bos # toks @ replicate k pad], [toks @ [eos] @ replicate k pad])
        \<and> target_lengths pad
            (fst (create_target_and_shifted_label_sequences pad eos [sentence pad bos eos toks k]))
          = [Suc (length toks)])"
proof -
  have general: "create_target_and_shifted_label_sequences pad eos batch =
     (map (\<lambda>s. map (\<lambda>x. if x = eos then pad else x) (butlast s)) batch, map tl batch)"
    by (simp add: create_target_and_shifted_label_sequences_def)
  have shaped: "create_target_and_shifted_label_sequences pad eos [sentence pad bos eos toks k] =
          ([bos # toks @ replicate k pad], [toks @ [eos] @ replicate k pad])
        \<and> target_lengths pad
            (fst (create_target_and_shifted_label_sequences pad eos [sentence pad bos eos toks k]))
          = [Suc (length toks)]"
    if ok: "sentinels_ok pad bos eos toks"
  proof -
    have t: "map (\<lambda>x. if x = eos then pad else x) (butlast (sentence pad bos eos toks k))
           = bos # toks @ replicate k pad"
      using ok by (rule target_of_sentence)
    have l: "tl (sentence pad bos eos toks k) = toks @ [eos] @ replicate k pad"
      by (simp add: sentence_def)
    have c: "length (filter (\<lambda>x. x \<noteq> pad) (bos # toks @ replicate k pad)) = Suc (length toks)"
      using ok by (rule count_of_target)
    from t l c show ?thesis
      by (simp add: create_target_and_shifted_label_sequences_def target_lengths_def)
  qed
  from general shaped show ?thesis by blast
qed

text \<open>
  The example of the spec, with padding 0, start sentinel 2 and end sentinel 3: target
  \<open>[BOS,4,17,35,12,PAD,PAD]\<close>, label \<open>[4,17,35,12,EOS,PAD,PAD]\<close> and length 5.
\<close>

theorem shifted_sequences_example:
  "sentinels_ok 0 2 3 [4, 17, 35, 12]
   \<and> sentence 0 2 3 [4, 17, 35, 12] 2 = [2, 4, 17, 35, 12, 3, 0, 0]
   \<and> create_target_and_shifted_label_sequences 0 3 [[2, 4, 17, 35, 12, 3, 0, 0]] =
       ([[2, 4, 17, 35, 12, 0, 0]], [[4, 17, 35, 12, 3, 0, 0]])
   \<and> target_lengths 0
        (fst (create_target_and_shifted_label_sequences 0 3 [[2, 4, 17, 35, 12, 3, 0, 0]])) = [5]"
proof -
  have ok: "sentinels_ok 0 2 3 [4, 17, 35, 12]"
    by (simp add: sentinels_ok_def)
  have s: "sentence 0 2 3 [4, 17, 35, 12] 2 = [2, 4, 17, 35, 12, 3, 0, 0]"
    by (simp add: sentence_def numeral_2_eq_2)
  from shifted_sequences_replace_eos [of 0 3 "[]" 2 "[4, 17, 35, 12]" 2] ok
  have "create_target_and_shifted_label_sequences 0 3 [sentence 0 2 3 [4, 17, 35, 12] 2] =
          ([2 # [4, 17, 35, 12] @ replicate 2 0], [[4, 17, 35, 12] @ [3] @ replicate 2 0])"
    and "target_lengths 0
            (fst (create_target_and_shifted_label_sequences 0 3 [sentence 0 2 3 [4, 17, 35, 12] 2]))
          = [Suc (length [4, 17, 35, 12 :: int])]"
    by blast+
  then have "create_target_and_shifted_label_sequences 0 3 [[2, 4, 17, 35, 12, 3, 0, 0]] =
       ([[2, 4, 17, 35, 12, 0, 0]], [[4, 17, 35, 12, 3, 0, 0]])"
    and "target_lengths 0
        (fst (create_target_and_shifted_label_sequences 0 3 [[2, 4, 17, 35, 12, 3, 0, 0]])) = [5]"
    unfolding s by (simp_all add: numeral_2_eq_2)
  with ok s show ?thesis by blast
qed

text \<open>
  On the same sentence the target is not \<open>sequence[:-1]\<close>, which still holds the end
  sentinel.
\<close>

theorem target_is_not_plain_prefix:
  "fst (create_target_and_shifted_label_sequences 0 3 [[2, 4, 17, 35, 12, 3, 0, 0]])
     \<noteq> map butlast [[2, 4, 17, 35, 12, 3, 0, 0]]"
  by (simp add: create_target_and_shifted_label_sequences_def)

end
